theory Spec2Isabelle
  imports
    Main
    "HOL-Library.Multiset"
    "HOL-Library.List_Lexorder"
    "HOL-Library.Char_ord"
    "HOL-Library.Option_ord"
    "HOL-Library.Product_Lexorder"
    "HOL-Library.AList"
begin

section \<open>Data model of \<^verbatim>\<open>nuskell/verifier/basis_finder.py\<close>\<close>

text \<open>
  A species is an opaque, totally ordered identifier (a Python string, compared by
  \<^verbatim>\<open>sorted\<close>); the development is polymorphic in it.  A state is a Python list of
  species, a reaction is the pair \<^verbatim>\<open>[reactants, products]\<close>, a pathway and a CRN are
  lists of reactions.  The set of formal species is only ever used through
  \<^verbatim>\<open>x in fs\<close>, so it is a HOL set.
\<close>

type_synonym 'a state = "'a list"
type_synonym 'a reaction = "'a list \<times> 'a list"
type_synonym 'a pathway = "'a reaction list"
type_synonym 'a crn = "'a reaction list"

text \<open>The Python exceptions that the modelled functions can raise.\<close>

datatype error = ValueError | KeyError | TypeError | AssertionError | IndexError

text \<open>
  The package is Python 3 code (\<^verbatim>\<open>ioutils.py\<close> uses f-strings, this module imports
  from \<^verbatim>\<open>builtins\<close>), and in Python 3 the builtin \<^verbatim>\<open>filter\<close> returns a lazy iterator
  and not a list.  A
  sequence value is therefore either a list object or a filter object;
  \<open>FilterObj xs\<close> is a fresh filter object that yields the elements \<open>xs\<close> when it is
  iterated.  A filter object can be iterated and passed to \<^verbatim>\<open>sorted\<close>, but it has no
  \<^verbatim>\<open>len\<close>, it cannot be subscripted or sliced, and it cannot be concatenated with
  \<^verbatim>\<open>+\<close>: each of these raises \<^verbatim>\<open>TypeError\<close>.  No filter object of this module is
  iterated a second time, so the exhaustion of an iterator is not modelled.
\<close>

datatype 'a seq_value = ListObj "'a list" | FilterObj "'a list"

text \<open>\<^verbatim>\<open>len(x)\<close>, the copy \<^verbatim>\<open>x[:]\<close>, the elements that iterating \<open>x\<close> yields (as in
  \<^verbatim>\<open>sorted(x)\<close>), and \<^verbatim>\<open>x + l\<close> for a list \<open>l\<close>.\<close>

definition py_len :: "'a seq_value \<Rightarrow> error + nat" where
  "py_len x = (case x of ListObj l \<Rightarrow> Inr (length l) | FilterObj l \<Rightarrow> Inl TypeError)"

definition py_copy :: "'a seq_value \<Rightarrow> error + 'a list" where
  "py_copy x = (case x of ListObj l \<Rightarrow> Inr l | FilterObj l \<Rightarrow> Inl TypeError)"

definition py_items :: "'a seq_value \<Rightarrow> 'a list" where
  "py_items x = (case x of ListObj l \<Rightarrow> l | FilterObj l \<Rightarrow> l)"

definition py_add :: "'a seq_value \<Rightarrow> 'a list \<Rightarrow> error + 'a list" where
  "py_add x l = (case x of ListObj k \<Rightarrow> Inr (k @ l) | FilterObj k \<Rightarrow> Inl TypeError)"

section \<open>Multiset / state algebra\<close>

text \<open>\<^verbatim>\<open>formal(s, fs)\<close> and \<^verbatim>\<open>intermediate(s, fs)\<close> return the filter object of the
  builtin \<^verbatim>\<open>filter\<close>.\<close>

definition formal :: "'a state \<Rightarrow> 'a set \<Rightarrow> 'a seq_value" where
  "formal s fs = FilterObj (filter (\<lambda>x. x \<in> fs) s)"

definition intermediate :: "'a state \<Rightarrow> 'a set \<Rightarrow> 'a seq_value" where
  "intermediate s fs = FilterObj (filter (\<lambda>x. x \<notin> fs) s)"

text \<open>\<^verbatim>\<open>contained_helper\<close>: the nested recursive function of \<^verbatim>\<open>contained\<close>.  With a
  non-empty \<open>a\<close> and an empty \<open>b\<close> the test \<^verbatim>\<open>len(b) < len(a)\<close> returns \<open>False\<close> before
  \<^verbatim>\<open>b[0]\<close> is read.\<close>

fun contained_helper :: "'a list \<Rightarrow> 'a list \<Rightarrow> bool" where
  "contained_helper [] b = True"
| "contained_helper (x # a) [] = False"
| "contained_helper (x # a) (y # b) =
     (if length (y # b) < length (x # a) then False
      else if x = y then contained_helper a b
      else contained_helper (x # a) b)"

definition contained :: "'a::linorder list \<Rightarrow> 'a list \<Rightarrow> bool" where
  "contained a b = contained_helper (sort a) (sort b)"

text \<open>\<^verbatim>\<open>setminus(a, b)\<close>: the copies \<^verbatim>\<open>a = a[:]\<close> and \<^verbatim>\<open>b = b[:]\<close>, which raise
  \<^verbatim>\<open>TypeError\<close> on a filter object, then the loop over \<open>a\<close> with the private copy of
  \<open>b\<close> and the accumulator \<open>T\<close>; \<^verbatim>\<open>b.remove(x)\<close> deletes the first occurrence.\<close>

fun setminus_loop :: "'a list \<Rightarrow> 'a list \<Rightarrow> 'a list \<Rightarrow> 'a list" where
  "setminus_loop [] b T = T"
| "setminus_loop (x # a) b T =
     (if x \<in> set b then setminus_loop a (remove1 x b) T
      else setminus_loop a b (T @ [x]))"

definition setminus :: "'a seq_value \<Rightarrow> 'a seq_value \<Rightarrow> error + 'a list" where
  "setminus a b =
     (case py_copy a of
        Inl e \<Rightarrow> Inl e
      | Inr a' \<Rightarrow>
          (case py_copy b of
             Inl e \<Rightarrow> Inl e
           | Inr b' \<Rightarrow> Inr (setminus_loop a' b' [])))"

text \<open>\<^verbatim>\<open>remove_duplicates(l)\<close>.  The \<^verbatim>\<open>while\<close> loop works on the local name \<open>l\<close>, which
  \<^verbatim>\<open>l = l[1:]\<close> rebinds to fresh lists; \<^verbatim>\<open>l.sort()\<close> before it sorts the caller's list
  object in place.  \<open>remove_duplicates_io\<close> returns the result together with the
  content of the caller's list after the call.\<close>

fun remove_duplicates_loop :: "'a list \<Rightarrow> 'a list \<Rightarrow> 'a list" where
  "remove_duplicates_loop r (x # y # l) =
     remove_duplicates_loop (if x \<noteq> y then r @ [x] else r) (y # l)"
| "remove_duplicates_loop r [x] = r @ [x]"
| "remove_duplicates_loop r [] = r"

definition remove_duplicates_io :: "'a::linorder list \<Rightarrow> 'a list \<times> 'a list" where
  "remove_duplicates_io l =
     (if length l = 0 then ([], l)
      else (remove_duplicates_loop [] (sort l), sort l))"

definition remove_duplicates :: "'a::linorder list \<Rightarrow> 'a list" where
  "remove_duplicates l = fst (remove_duplicates_io l)"

text \<open>\<^verbatim>\<open>formal_state(S, fs)\<close>: \<^verbatim>\<open>len(formal(S, fs)) == len(S)\<close>, the left operand
  first.\<close>

definition formal_state :: "'a state \<Rightarrow> 'a set \<Rightarrow> error + bool" where
  "formal_state S fs =
     (case py_len (formal S fs) of
        Inl e \<Rightarrow> Inl e
      | Inr n \<Rightarrow> Inr (n = length S))"

section \<open>Pathway engine\<close>

text \<open>\<^verbatim>\<open>next_state(s, rxn)\<close>: \<^verbatim>\<open>s.remove(x)\<close> raises \<^verbatim>\<open>ValueError\<close> when \<open>x\<close> is not in
  the list.\<close>

fun remove_each :: "'a list \<Rightarrow> 'a list \<Rightarrow> error + 'a list" where
  "remove_each [] s = Inr s"
| "remove_each (x # xs) s =
     (if x \<in> set s then remove_each xs (remove1 x s) else Inl ValueError)"

definition next_state :: "'a::linorder state \<Rightarrow> 'a reaction \<Rightarrow> error + 'a state" where
  "next_state s rxn =
     (case remove_each (fst rxn) s of
        Inl e \<Rightarrow> Inl e
      | Inr s' \<Rightarrow> Inr (sort (s' @ snd rxn)))"

text \<open>\<^verbatim>\<open>minimal_initial_state(pathway)\<close>: the pair is the loop state
  \<open>(initial, current)\<close>.\<close>

fun mis_reactants :: "'a list \<Rightarrow> 'a list \<times> 'a list \<Rightarrow> 'a list \<times> 'a list" where
  "mis_reactants [] ic = ic"
| "mis_reactants (r # rs) ic =
     (if r \<in> set (snd ic) then mis_reactants rs (fst ic, remove1 r (snd ic))
      else mis_reactants rs (fst ic @ [r], snd ic))"

fun mis_loop :: "'a pathway \<Rightarrow> 'a list \<times> 'a list \<Rightarrow> 'a list \<times> 'a list" where
  "mis_loop [] ic = ic"
| "mis_loop (rxn # p) ic =
     (let ic' = mis_reactants (fst rxn) ic
      in mis_loop p (fst ic', snd ic' @ snd rxn))"

definition minimal_initial_state :: "'a::linorder pathway \<Rightarrow> 'a state" where
  "minimal_initial_state p = sort (fst (mis_loop p ([], [])))"

text \<open>\<^verbatim>\<open>final_state(p, S)\<close>: \<open>None\<close> is the Python \<^verbatim>\<open>None\<close> returned when a reactant is
  not available.\<close>

fun final_reactants :: "'a list \<Rightarrow> 'a list \<Rightarrow> 'a list option" where
  "final_reactants [] c = Some c"
| "final_reactants (x # xs) c =
     (if x \<notin> set c then None else final_reactants xs (remove1 x c))"

fun final_loop :: "'a::linorder pathway \<Rightarrow> 'a list \<Rightarrow> 'a state option" where
  "final_loop [] c = Some (sort c)"
| "final_loop (rxn # p) c =
     (case final_reactants (fst rxn) c of
        None \<Rightarrow> None
      | Some c' \<Rightarrow> final_loop p (c' @ snd rxn))"

definition final_state :: "'a::linorder pathway \<Rightarrow> 'a state \<Rightarrow> 'a state option" where
  "final_state p S = final_loop p S"

text \<open>The replay loop \<^verbatim>\<open>for r in p: S = next_state(S, r)\<close> shared by \<^verbatim>\<open>width\<close>,
  \<^verbatim>\<open>formal_closure\<close> and \<^verbatim>\<open>regular_final_state\<close>; it stops at the first exception.\<close>

fun replay :: "'a::linorder pathway \<Rightarrow> 'a state \<Rightarrow> error + 'a state" where
  "replay [] S = Inr S"
| "replay (r # p) S =
     (case next_state S r of Inl e \<Rightarrow> Inl e | Inr S' \<Rightarrow> replay p S')"

text \<open>\<^verbatim>\<open>width(pathway)\<close>.\<close>

fun width_loop :: "'a::linorder pathway \<Rightarrow> 'a state \<Rightarrow> nat \<Rightarrow> error + nat" where
  "width_loop [] S w = Inr w"
| "width_loop (rxn # p) S w =
     (case next_state S rxn of
        Inl e \<Rightarrow> Inl e
      | Inr S' \<Rightarrow> width_loop p S' (if length S' > w then length S' else w))"

definition width :: "'a::linorder pathway \<Rightarrow> error + nat" where
  "width pathway =
     (let initial = minimal_initial_state pathway
      in width_loop pathway initial (length initial))"

text \<open>\<^verbatim>\<open>decompose(path, fs)\<close>.  In the test
  \<^verbatim>\<open>not formal_state(i1, fs) or not formal_state(i2, fs)\<close> the second call is made only
  when the first returned true.  An element
  \<^verbatim>\<open>[final_state(p1, i1), final_state(p2, i2)]\<close> is a pair; each component is a state
  or \<^verbatim>\<open>None\<close>.  \<^verbatim>\<open>sorted\<close> compares the two-element lists lexicographically;
  \<^verbatim>\<open>final_state\<close> from the minimal initial state of the same pathway is never
  \<^verbatim>\<open>None\<close>, so the order of \<^verbatim>\<open>None\<close>, which Python 3 does not define, plays no
  role.\<close>

fun decompose_helper ::
  "'a::linorder pathway \<Rightarrow> 'a pathway \<Rightarrow> 'a pathway \<Rightarrow> 'a set \<Rightarrow>
   error + ('a state option \<times> 'a state option) list" where
  "decompose_helper p1 p2 [] fs =
     (let i1 = minimal_initial_state p1; i2 = minimal_initial_state p2
      in case formal_state i1 fs of
           Inl e \<Rightarrow> Inl e
         | Inr False \<Rightarrow> Inr []
         | Inr True \<Rightarrow>
             (case formal_state i2 fs of
                Inl e \<Rightarrow> Inl e
              | Inr False \<Rightarrow> Inr []
              | Inr True \<Rightarrow>
                  if length p1 > 0 \<and> length p2 > 0
                  then Inr [(final_state p1 i1, final_state p2 i2)]
                  else Inr []))"
| "decompose_helper p1 p2 (r # remaining) fs =
     (let i1 = minimal_initial_state p1; i2 = minimal_initial_state p2
      in case formal_state i1 fs of
           Inl e \<Rightarrow> Inl e
         | Inr False \<Rightarrow> Inr []
         | Inr True \<Rightarrow>
             (case formal_state i2 fs of
                Inl e \<Rightarrow> Inl e
              | Inr False \<Rightarrow> Inr []
              | Inr True \<Rightarrow>
                  (case decompose_helper (p1 @ [r]) p2 remaining fs of
                     Inl e \<Rightarrow> Inl e
                   | Inr l1 \<Rightarrow>
                       (case decompose_helper p1 (p2 @ [r]) remaining fs of
                          Inl e \<Rightarrow> Inl e
                        | Inr l2 \<Rightarrow> Inr (l1 @ l2)))))"

definition decompose ::
  "'a::linorder pathway \<Rightarrow> 'a set \<Rightarrow> error + ('a state option \<times> 'a state option) list" where
  "decompose path fs =
     (case decompose_helper [] [] path fs of
        Inl e \<Rightarrow> Inl e
      | Inr l \<Rightarrow> Inr (remove_duplicates (sort l)))"

section \<open>Regularity and closure\<close>

text \<open>\<^verbatim>\<open>formal_closure(p, fs)\<close>: the loop state is \<open>(S, T)\<close>.  \<open>T\<close> starts as the
  filter object \<^verbatim>\<open>formal(S, fs)\<close>; in \<^verbatim>\<open>T = T + setminus(f, T)\<close> the call is evaluated
  before the addition.\<close>

fun formal_closure_loop ::
  "'a set \<Rightarrow> 'a::linorder pathway \<Rightarrow> 'a state \<Rightarrow> 'a seq_value \<Rightarrow> error + 'a seq_value" where
  "formal_closure_loop fs [] S T = Inr T"
| "formal_closure_loop fs (r # p) S T =
     (case next_state S r of
        Inl e \<Rightarrow> Inl e
      | Inr S' \<Rightarrow>
          (case setminus (formal S' fs) T of
             Inl e \<Rightarrow> Inl e
           | Inr d \<Rightarrow>
               (case py_add T d of
                  Inl e \<Rightarrow> Inl e
                | Inr T' \<Rightarrow> formal_closure_loop fs p S' (ListObj T'))))"

definition formal_closure :: "'a::linorder pathway \<Rightarrow> 'a set \<Rightarrow> error + 'a list" where
  "formal_closure p fs =
     (let initial = minimal_initial_state p
      in case formal_closure_loop fs p initial (formal initial fs) of
           Inl e \<Rightarrow> Inl e
         | Inr T \<Rightarrow> Inr (sort (py_items T)))"

section \<open>Tidiness checker\<close>

text \<open>The \<^verbatim>\<open>for rxn in crn\<close> loop of \<^verbatim>\<open>tidy\<close> for one dequeued state \<open>S\<close>; the loop
  state is the pair \<open>(mem, queue)\<close>.  The loop is entered only after \<^verbatim>\<open>len(S)\<close> has
  returned, that is for a list \<open>S\<close>.  The new state \<open>nS\<close> is a fresh filter object;
  filter objects are compared by identity, so \<^verbatim>\<open>nS not in mem\<close> holds.\<close>

fun tidy_expand ::
  "'a set \<Rightarrow> 'a::linorder state \<Rightarrow> 'a crn \<Rightarrow> 'a seq_value list \<times> 'a seq_value list \<Rightarrow>
   error + 'a seq_value list \<times> 'a seq_value list" where
  "tidy_expand fs S [] mq = Inr mq"
| "tidy_expand fs S (rxn # crn) mq =
     (if length (fst rxn) > 0 \<and> contained (fst rxn) S then
        (case next_state S rxn of
           Inl e \<Rightarrow> Inl e
         | Inr S' \<Rightarrow>
             (let nS = intermediate S' fs
              in tidy_expand fs S crn (fst mq @ [nS], snd mq @ [nS])))
      else tidy_expand fs S crn mq)"

text \<open>The \<^verbatim>\<open>while len(queue) > 0\<close> loop; \<^verbatim>\<open>len(S)\<close> raises \<^verbatim>\<open>TypeError\<close> when the
  dequeued \<open>S\<close> is a filter object.  The loop has no bound: \<open>None\<close> is a loop that
  does not return, \<open>Some (Inl e)\<close> an exception, \<open>Some (Inr b)\<close> the returned
  Boolean.\<close>

partial_function (option) tidy_loop ::
  "'a set \<Rightarrow> 'a::linorder crn \<Rightarrow> 'a seq_value list \<Rightarrow> 'a seq_value list \<Rightarrow>
   (error + bool) option" where
  "tidy_loop fs crn queue mem =
     (case queue of
        [] \<Rightarrow> Some (Inr False)
      | S # queue' \<Rightarrow>
          (case S of
             FilterObj xs \<Rightarrow> Some (Inl TypeError)
           | ListObj l \<Rightarrow>
               if length l = 0 then Some (Inr True)
               else (case tidy_expand fs l crn (mem, queue') of
                       Inl e \<Rightarrow> Some (Inl e)
                     | Inr mq \<Rightarrow> tidy_loop fs crn (snd mq) (fst mq))))"

declare tidy_loop.simps [code]

definition tidy :: "'a::linorder state \<Rightarrow> 'a crn \<Rightarrow> 'a set \<Rightarrow> (error + bool) option" where
  "tidy S crn fs = tidy_loop fs crn [intermediate S fs] [intermediate S fs]"

section \<open>Basis search driver\<close>

text \<open>\<^verbatim>\<open>linearcheck(path, S, nonw)\<close>; \<open>c1\<close> is a filter object, of which \<^verbatim>\<open>len\<close> is
  taken; \<^verbatim>\<open>assert r in init\<close> raises \<^verbatim>\<open>AssertionError\<close>.\<close>

fun linearcheck_reactants :: "'a list \<Rightarrow> 'a list \<Rightarrow> error + 'a list" where
  "linearcheck_reactants [] init = Inr init"
| "linearcheck_reactants (r # rs) init =
     (if r \<in> set init then linearcheck_reactants rs (remove1 r init) else Inl AssertionError)"

fun linearcheck :: "'a pathway \<Rightarrow> 'a state \<Rightarrow> 'a set \<Rightarrow> error + bool" where
  "linearcheck [] init nonw =
     (case py_len (FilterObj (filter (\<lambda>x. x \<in> nonw) init)) of
        Inl e \<Rightarrow> Inl e
      | Inr n \<Rightarrow> Inr (\<not> n > 1))"
| "linearcheck (rxn # path) init nonw =
     (case py_len (FilterObj (filter (\<lambda>x. x \<in> nonw) init)) of
        Inl e \<Rightarrow> Inl e
      | Inr n \<Rightarrow>
          if n > 1 then Inr False
          else case linearcheck_reactants (fst rxn) init of
                 Inl e \<Rightarrow> Inl e
               | Inr init' \<Rightarrow> linearcheck path (init' @ snd rxn) nonw)"

text \<open>\<^verbatim>\<open>l[-i]\<close>: Python indexing from the end, \<^verbatim>\<open>IndexError\<close> out of range.\<close>

definition nth_neg :: "'b list \<Rightarrow> nat \<Rightarrow> error + 'b" where
  "nth_neg l i =
     (if i = 0 then (if l = [] then Inl IndexError else Inr (l ! 0))
      else if i \<le> length l then Inr (l ! (length l - i))
      else Inl IndexError)"

text \<open>\<^verbatim>\<open>regular_final_state(p, fs)\<close>: the forward loop with state
  \<open>(S, state_list, flag, j)\<close>, where \<^verbatim>\<open>contained\<close> sorts the elements of the filter
  object \<open>f\<close>; then the loop over \<^verbatim>\<open>reversed(p)\<close> with state \<open>(i, T, RFS)\<close>, where
  \<^verbatim>\<open>setminus(f, T)\<close> is called on that filter object; \<^verbatim>\<open>T.sort()\<close> sorts the list
  bound to \<open>T\<close>, which stays sorted for the next round.\<close>

fun rfs_forward ::
  "'a set \<Rightarrow> 'a::linorder state \<Rightarrow> 'a pathway \<Rightarrow> 'a state \<Rightarrow> 'a state list \<Rightarrow> bool \<Rightarrow> nat \<Rightarrow>
   error + 'a state list \<times> nat" where
  "rfs_forward fs initial [] S state_list flag j = Inr (state_list, j)"
| "rfs_forward fs initial (r # p) S state_list flag j =
     (case next_state S r of
        Inl e \<Rightarrow> Inl e
      | Inr S' \<Rightarrow>
          (let flag' = (if \<not> contained (py_items (formal S' fs)) initial then False else flag)
           in rfs_forward fs initial p S' (state_list @ [S']) flag'
                (if flag' then j + 1 else j)))"

fun rfs_backward ::
  "'a set \<Rightarrow> nat \<Rightarrow> nat \<Rightarrow> 'a::linorder state list \<Rightarrow> 'a pathway \<Rightarrow> nat \<Rightarrow> 'a list \<Rightarrow>
   'a list list \<Rightarrow> error + 'a list list" where
  "rfs_backward fs n j state_list [] i T RFS = Inr RFS"
| "rfs_backward fs n j state_list (r # rs) i T RFS =
     (let i' = i + 1
      in case nth_neg state_list i' of
           Inl e \<Rightarrow> Inl e
         | Inr Si \<Rightarrow>
             (case setminus (formal Si fs) (ListObj T) of
                Inl e \<Rightarrow> Inl e
              | Inr d \<Rightarrow>
                  (let T' = T @ d
                   in if int j \<ge> int n - int i' then
                        (case nth_neg state_list (i' + 1) of
                           Inl e \<Rightarrow> Inl e
                         | Inr Sp \<Rightarrow>
                             (case setminus (ListObj Sp) (ListObj (fst r)) of
                                Inl e \<Rightarrow> Inl e
                              | Inr m \<Rightarrow>
                                  (case py_len (formal m fs) of
                                     Inl e \<Rightarrow> Inl e
                                   | Inr k \<Rightarrow>
                                       if k = 0 then
                                         (let Ts = sort T'
                                          in rfs_backward fs n j state_list rs i' Ts
                                               (if Ts \<notin> set RFS then RFS @ [Ts] else RFS))
                                       else rfs_backward fs n j state_list rs i' T' RFS)))
                      else rfs_backward fs n j state_list rs i' T' RFS)))"

definition regular_final_state :: "'a::linorder pathway \<Rightarrow> 'a set \<Rightarrow> error + 'a list list" where
  "regular_final_state p fs =
     (let initial = minimal_initial_state p
      in case rfs_forward fs initial p initial [initial] True 0 of
           Inl e \<Rightarrow> Inl e
         | Inr slj \<Rightarrow>
             (case rfs_backward fs (length p) (snd slj) (fst slj) (rev p) 0 [] [] of
                Inl e \<Rightarrow> Inl e
              | Inr RFS \<Rightarrow> Inr (sort RFS)))"


text \<open>A signature \<^verbatim>\<open>(initial, final, w_p, fc, DFS, RFS)\<close>; the optional interpretation
  \<^verbatim>\<open>inter\<close> (a dictionary from species to lists of species); the globals
  \<^verbatim>\<open>ret, ccheck, ebasis, done\<close> as a record that is passed along; the arguments of
  \<^verbatim>\<open>enumerate_pathways\<close> that do not change during a pass.\<close>

type_synonym 'a signature =
  "'a state \<times> 'a state option \<times> nat \<times> 'a list \<times>
   ('a state option \<times> 'a state option) list \<times> 'a list list"

type_synonym 'a collapse_map = "('a \<times> 'a list) list"

record 'a search_state =
  ret :: "'a signature list"
  ccheck :: "'a state option list"
  ebasis :: "'a pathway list"
  done_flag :: bool

record 'a search_args =
  arg_w_max :: nat
  arg_i_max :: nat
  arg_crn :: "'a crn"
  arg_fs :: "'a set"
  arg_nonw :: "'a set option"
  arg_inter :: "'a collapse_map option"

text \<open>\<^verbatim>\<open>if inter:\<close> is false for \<^verbatim>\<open>None\<close> and for the empty dictionary.  \<^verbatim>\<open>collapse(l)\<close>
  replaces every species that is a key by its image.\<close>

definition inter_true :: "'a collapse_map option \<Rightarrow> bool" where
  "inter_true i = (case i of None \<Rightarrow> False | Some d \<Rightarrow> d \<noteq> [])"

definition collapse :: "'a collapse_map \<Rightarrow> 'a list \<Rightarrow> 'a list" where
  "collapse d l = concat (map (\<lambda>x. case map_of d x of Some y \<Rightarrow> y | None \<Rightarrow> [x]) l)"

definition collapse_set :: "'a collapse_map \<Rightarrow> 'a set \<Rightarrow> 'a set" where
  "collapse_set d A = (\<Union>x \<in> A. set (collapse d [x]))"

text \<open>\<^verbatim>\<open>formal_state\<close> on a value that may be \<^verbatim>\<open>None\<close> (\<^verbatim>\<open>filter\<close> on \<^verbatim>\<open>None\<close> raises
  \<^verbatim>\<open>TypeError\<close>), and the loop \<^verbatim>\<open>for [p1, p2] in DFS\<close> that detects a strongly decomposable
  pathway.\<close>

definition formal_state_opt :: "'a state option \<Rightarrow> 'a set \<Rightarrow> error + bool" where
  "formal_state_opt S fs = (case S of None \<Rightarrow> Inl TypeError | Some S' \<Rightarrow> formal_state S' fs)"

fun strongly_decomposable ::
  "('a state option \<times> 'a state option) list \<Rightarrow> 'a set \<Rightarrow> error + bool" where
  "strongly_decomposable [] fs = Inr False"
| "strongly_decomposable (pp # DFS) fs =
     (case formal_state_opt (fst pp) fs of
        Inl e \<Rightarrow> Inl e
      | Inr True \<Rightarrow> Inr True
      | Inr False \<Rightarrow>
          (case formal_state_opt (snd pp) fs of
             Inl e \<Rightarrow> Inl e
           | Inr True \<Rightarrow> Inr True
           | Inr False \<Rightarrow> strongly_decomposable DFS fs))"

text \<open>The block \<^verbatim>\<open>if len(p) > 0 and formal_state(final, fs)\<close>.  The Boolean of the
  result says whether \<^verbatim>\<open>enumerate_pathways\<close> goes on to its final loop (\<open>True\<close>) or has
  returned (\<open>False\<close>).\<close>

definition regularity_check ::
  "'a::linorder search_args \<Rightarrow> 'a pathway \<Rightarrow> 'a state option \<Rightarrow> 'a list list \<Rightarrow>
   'a search_state \<Rightarrow> error + bool \<times> 'a search_state" where
  "regularity_check a p final RFS st =
     (if length p > 0 then
        (case formal_state_opt final (arg_fs a) of
           Inl e \<Rightarrow> Inl e
         | Inr False \<Rightarrow> Inr (True, st)
         | Inr True \<Rightarrow>
             if inter_true (arg_inter a) then
               (let d = the (arg_inter a);
                    p1 = map (\<lambda>rxn. (collapse d (fst rxn), collapse d (snd rxn))) p;
                    fsp = collapse_set d (arg_fs a);
                    initial1 = minimal_initial_state p1;
                    final1 = final_state p1 initial1
                in case regular_final_state p1 fsp of
                     Inl e \<Rightarrow> Inl e
                   | Inr RFS1 \<Rightarrow>
                       (let st' = st\<lparr>ebasis := ebasis st @ [p]\<rparr>
                        in if final1 \<notin> Some ` set RFS1 then Inr (False, st'\<lparr>done_flag := True\<rparr>)
                           else Inr (True, st')))
             else
               (let st' = st\<lparr>ebasis := ebasis st @ [p]\<rparr>
                in if final \<notin> Some ` set RFS then Inr (False, st'\<lparr>done_flag := True\<rparr>)
                   else Inr (True, st')))
      else Inr (True, st))"

text \<open>The block \<^verbatim>\<open>if len(DFS) == 0\<close>: the tidiness test of a final state not yet in
  \<^verbatim>\<open>ccheck\<close>, then the regularity test.  \<open>None\<close> is a call of \<^verbatim>\<open>tidy\<close> that does not
  return.\<close>

definition elementary_check ::
  "'a::linorder search_args \<Rightarrow> 'a pathway \<Rightarrow> 'a state option \<Rightarrow> 'a list list \<Rightarrow>
   'a search_state \<Rightarrow> (error + bool \<times> 'a search_state) option" where
  "elementary_check a p final RFS st =
     (if final \<notin> set (ccheck st) then
        (let st' = st\<lparr>ccheck := ccheck st @ [final]\<rparr>
         in case final of
              None \<Rightarrow> Some (Inl TypeError)
            | Some f \<Rightarrow>
                (case tidy f (arg_crn a) (arg_fs a) of
                   None \<Rightarrow> None
                 | Some (Inl e) \<Rightarrow> Some (Inl e)
                 | Some (Inr t) \<Rightarrow>
                     if \<not> t then Some (Inr (False, st'\<lparr>done_flag := True\<rparr>))
                     else Some (regularity_check a p final RFS st')))
      else Some (regularity_check a p final RFS st))"

text \<open>The body of \<^verbatim>\<open>enumerate_pathways\<close> up to its final loop.\<close>

definition enumerate_pathways_visit ::
  "'a::linorder search_args \<Rightarrow> 'a pathway \<Rightarrow> 'a search_state \<Rightarrow>
   (error + bool \<times> 'a search_state) option" where
  "enumerate_pathways_visit a p st =
     (if done_flag st then Some (Inr (False, st))
      else case width p of
        Inl e \<Rightarrow> Some (Inl e)
      | Inr w_p \<Rightarrow>
        if w_p > arg_w_max a then Some (Inr (False, st))
        else
          (let initial = minimal_initial_state p
           in case formal_state initial (arg_fs a) of
                Inl e \<Rightarrow> Some (Inl e)
              | Inr False \<Rightarrow> Some (Inr (False, st))
              | Inr True \<Rightarrow>
              if length initial > arg_i_max a then Some (Inr (False, st))
              else case (case arg_nonw a of None \<Rightarrow> Inr True | Some nw \<Rightarrow> linearcheck p initial nw) of
                Inl e \<Rightarrow> Some (Inl e)
              | Inr False \<Rightarrow> Some (Inr (False, st))
              | Inr True \<Rightarrow>
                  (let final = final_state p initial
                   in case decompose p (arg_fs a) of
                        Inl e \<Rightarrow> Some (Inl e)
                      | Inr DFS \<Rightarrow>
                     (case strongly_decomposable DFS (arg_fs a) of
                        Inl e \<Rightarrow> Some (Inl e)
                      | Inr True \<Rightarrow> Some (Inr (False, st))
                      | Inr False \<Rightarrow>
                          (case formal_closure p (arg_fs a) of
                             Inl e \<Rightarrow> Some (Inl e)
                           | Inr fc \<Rightarrow>
                               (case regular_final_state p (arg_fs a) of
                                  Inl e \<Rightarrow> Some (Inl e)
                                | Inr RFS \<Rightarrow>
                                    (let sig = (initial, final, w_p, fc, DFS, RFS)
                                     in if sig \<in> set (ret st) then Some (Inr (False, st))
                                        else
                                          (let st' = st\<lparr>ret := ret st @ [sig]\<rparr>
                                           in if length DFS = 0
                                              then elementary_check a p final RFS st'
                                              else Some (Inr (True, st'))))))))))"

text \<open>\<^verbatim>\<open>enumerate_pathways\<close>: \<open>Call p\<close> is the call on the pathway \<open>p\<close>, \<open>Loop p rs\<close> the
  rest \<open>rs\<close> of its loop \<^verbatim>\<open>for r in crn: enumerate_pathways(p + [r], \<dots>)\<close>.  The recursion
  has no depth bound, so the function is partial.\<close>

datatype 'a task = Call "'a pathway" | Loop "'a pathway" "'a crn"

partial_function (option) enumerate_pathways ::
  "'a::linorder search_args \<Rightarrow> 'a task \<Rightarrow> 'a search_state \<Rightarrow> (error + 'a search_state) option" where
  "enumerate_pathways a t st =
     (case t of
        Call p \<Rightarrow>
          (case enumerate_pathways_visit a p st of
             None \<Rightarrow> None
           | Some (Inl e) \<Rightarrow> Some (Inl e)
           | Some (Inr cs) \<Rightarrow>
               if fst cs then enumerate_pathways a (Loop p (arg_crn a)) (snd cs)
               else Some (Inr (snd cs)))
      | Loop p rs \<Rightarrow>
          (case rs of
             [] \<Rightarrow> Some (Inr st)
           | r # rs' \<Rightarrow>
               Option.bind (enumerate_pathways a (Call (p @ [r])) st)
                 (\<lambda>res. case res of
                    Inl e \<Rightarrow> Some (Inl e)
                  | Inr st' \<Rightarrow> enumerate_pathways a (Loop p rs') st')))"

declare enumerate_pathways.simps [code]


text \<open>\<^verbatim>\<open>max\<close> of a sequence raises \<^verbatim>\<open>ValueError\<close> on the empty sequence.  A generator
  or list comprehension evaluates its element expressions in order and stops at the
  first exception.  The branching factors \<open>(b, bf, br)\<close> are the first four statements
  of \<^verbatim>\<open>enumerate_basis\<close>; \<open>bf\<close> and \<open>br\<close> take \<^verbatim>\<open>len\<close> of the filter objects returned
  by \<^verbatim>\<open>intermediate\<close> and \<^verbatim>\<open>formal\<close>.\<close>

definition py_max :: "nat list \<Rightarrow> error + nat" where
  "py_max l = (case l of [] \<Rightarrow> Inl ValueError | x # xs \<Rightarrow> Inr (fold max xs x))"

fun py_collect :: "(error + 'b) list \<Rightarrow> error + 'b list" where
  "py_collect [] = Inr []"
| "py_collect (x # xs) =
     (case x of
        Inl e \<Rightarrow> Inl e
      | Inr v \<Rightarrow> (case py_collect xs of Inl e \<Rightarrow> Inl e | Inr vs \<Rightarrow> Inr (v # vs)))"

definition len_pair :: "'a list \<Rightarrow> 'a set \<Rightarrow> error + nat \<times> nat" where
  "len_pair r fs =
     (case py_len (formal r fs) of
        Inl e \<Rightarrow> Inl e
      | Inr x \<Rightarrow> (case py_len (intermediate r fs) of Inl e \<Rightarrow> Inl e | Inr y \<Rightarrow> Inr (x, y)))"

definition branching_factors ::
  "'a crn \<Rightarrow> 'a set \<Rightarrow> error + nat \<times> nat \<times> (nat \<times> nat) list" where
  "branching_factors crn fs =
     (case py_max (map (\<lambda>rp. max (length (fst rp)) (length (snd rp))) crn) of
        Inl e \<Rightarrow> Inl e
      | Inr b \<Rightarrow>
          (case py_collect (map (\<lambda>rp. py_len (intermediate (fst rp) fs)) crn) of
             Inl e \<Rightarrow> Inl e
           | Inr ls \<Rightarrow>
               (case py_max ls of
                  Inl e \<Rightarrow> Inl e
                | Inr bf \<Rightarrow>
                    (case py_collect (map (\<lambda>rp. len_pair (fst rp) fs) crn) of
                       Inl e \<Rightarrow> Inl e
                     | Inr br \<Rightarrow> Inr (b, bf, remove_duplicates br)))))"

text \<open>The bounds \<open>(w_t, i_t)\<close> derived from the signatures of a pass.\<close>

fun pass_stats :: "'a signature list \<Rightarrow> nat \<times> nat \<Rightarrow> nat \<times> nat" where
  "pass_stats [] cur = cur"
| "pass_stats ((i, f, w, fc, dfs, rfs) # signatures) cur =
     (if length dfs = 0
      then pass_stats signatures
             (if w > fst cur then w else fst cur,
              if length i > snd cur then length i else snd cur)
      else pass_stats signatures cur)"

definition next_bounds ::
  "nat \<Rightarrow> nat \<Rightarrow> (nat \<times> nat) list \<Rightarrow> 'a signature list \<Rightarrow> nat \<times> nat" where
  "next_bounds b bf br signatures =
     (let cur = pass_stats signatures (0, 0);
          w_t = fst cur * bf + b;
          i_t = fold (\<lambda>xy i_t. max i_t (snd cur * snd xy + fst xy)) br 0
      in (w_t, i_t))"

text \<open>The loop \<^verbatim>\<open>while not done\<close> of \<^verbatim>\<open>enumerate_basis\<close>; the current bounds are the
  fields \<open>arg_w_max\<close> and \<open>arg_i_max\<close> of the arguments, \<open>cc\<close> is \<^verbatim>\<open>ccheck\<close>, which is not
  reset between passes.\<close>

partial_function (option) enumerate_basis_loop ::
  "'a::linorder search_args \<Rightarrow> nat \<Rightarrow> nat \<Rightarrow> (nat \<times> nat) list \<Rightarrow>
   'a state option list \<Rightarrow> (error + 'a search_state) option" where
  "enumerate_basis_loop a b bf br cc =
     (case enumerate_pathways a (Call [])
             \<lparr>ret = [], ccheck = cc, ebasis = [], done_flag = False\<rparr> of
        None \<Rightarrow> None
      | Some (Inl e) \<Rightarrow> Some (Inl e)
      | Some (Inr st) \<Rightarrow>
          (let wi = next_bounds b bf br (ret st)
           in if fst wi \<le> arg_w_max a \<and> snd wi \<le> arg_i_max a then Some (Inr st)
              else if done_flag st then Some (Inr st)
              else enumerate_basis_loop (a\<lparr>arg_w_max := fst wi, arg_i_max := snd wi\<rparr>)
                     b bf br (ccheck st)))"

declare enumerate_basis_loop.simps [code]

text \<open>The construction of the formal basis from \<^verbatim>\<open>ebasis\<close>, and \<^verbatim>\<open>enumerate_basis\<close>
  itself; its value \<open>Some (Inr None)\<close> is the Python \<^verbatim>\<open>None\<close> returned for a CRN that is
  not tidy or not regular.\<close>

definition sorted_opt :: "'a::linorder state option \<Rightarrow> error + 'a state" where
  "sorted_opt S = (case S of None \<Rightarrow> Inl TypeError | Some S' \<Rightarrow> Inr (sort S'))"

fun formal_basis_loop ::
  "'a::linorder collapse_map option \<Rightarrow> 'a pathway list \<Rightarrow>
   ('a state \<times> 'a state) list \<times> ('a state \<times> 'a state) list \<Rightarrow>
   error + ('a state \<times> 'a state) list \<times> ('a state \<times> 'a state) list" where
  "formal_basis_loop i [] acc = Inr acc"
| "formal_basis_loop i (p # ps) acc =
     (let initial = minimal_initial_state p
      in case sorted_opt (final_state p initial) of
           Inl e \<Rightarrow> Inl e
         | Inr final \<Rightarrow>
             (let raw = fst acc @ [(sort initial, final)]
              in if inter_true i then
                   (let d = the i;
                        p1 = map (\<lambda>rxn. (collapse d (fst rxn), collapse d (snd rxn))) p;
                        initial1 = minimal_initial_state p1
                    in case sorted_opt (final_state p1 initial1) of
                         Inl e \<Rightarrow> Inl e
                       | Inr final1 \<Rightarrow>
                           formal_basis_loop i ps (raw, snd acc @ [(sort initial1, final1)]))
                 else formal_basis_loop i ps (raw, snd acc)))"

definition enumerate_basis ::
  "'a::linorder crn \<Rightarrow> 'a set \<Rightarrow> 'a set option \<Rightarrow> 'a collapse_map option \<Rightarrow>
   (error + (('a state \<times> 'a state) list \<times> ('a state \<times> 'a state) list) option) option" where
  "enumerate_basis crn fs nonw interp =
     (case branching_factors crn fs of
        Inl e \<Rightarrow> Some (Inl e)
      | Inr bs \<Rightarrow>
          (case enumerate_basis_loop
                  \<lparr>arg_w_max = 0, arg_i_max = 0, arg_crn = crn, arg_fs = fs,
                   arg_nonw = nonw, arg_inter = interp\<rparr>
                  (fst bs) (fst (snd bs)) (snd (snd bs)) [] of
             None \<Rightarrow> None
           | Some (Inl e) \<Rightarrow> Some (Inl e)
           | Some (Inr st) \<Rightarrow>
               if done_flag st then Some (Inr None)
               else (case formal_basis_loop interp (ebasis st) ([], []) of
                       Inl e \<Rightarrow> Some (Inl e)
                     | Inr acc \<Rightarrow>
                         Some (Inr (Some (remove_duplicates (sort (fst acc)),
                                          remove_duplicates (sort (snd acc))))))))"

section \<open>Module partitioner\<close>

text \<open>The dictionaries of \<^verbatim>\<open>find_modules\<close>.  \<^verbatim>\<open>parent\<close> maps an intermediate to an
  intermediate and is only read by key.  \<^verbatim>\<open>division\<close> has the intermediates and the
  integers \<open>0, 1, \<dots>\<close> as keys; it is kept as an association list in insertion order,
  an update of an existing key keeping its position.\<close>

type_synonym 'a parent = "'a \<rightharpoonup> 'a"
type_synonym 'a division = "(('a + nat) \<times> 'a reaction list) list"

text \<open>\<^verbatim>\<open>ancestor(x)\<close> with path compression; it returns the updated \<^verbatim>\<open>parent\<close> together
  with the root.  A missing key raises \<^verbatim>\<open>KeyError\<close>; on a cyclic \<^verbatim>\<open>parent\<close> the recursion
  does not return.\<close>

partial_function (option) ancestor ::
  "'a parent \<Rightarrow> 'a \<Rightarrow> (error + 'a parent \<times> 'a) option" where
  "ancestor parent x =
     (case parent x of
        None \<Rightarrow> Some (Inl KeyError)
      | Some px \<Rightarrow>
          if px \<noteq> x then
            Option.bind (ancestor parent px)
              (\<lambda>res. case res of
                 Inl e \<Rightarrow> Some (Inl e)
               | Inr pr \<Rightarrow> Some (Inr ((fst pr)(x \<mapsto> snd pr), snd pr)))
          else Some (Inr (parent, x)))"

declare ancestor.simps [code]

text \<open>The loop \<^verbatim>\<open>for x in t[1:]\<close> that links the roots to \<open>z\<close>.\<close>

fun union_loop :: "'a \<Rightarrow> 'a list \<Rightarrow> 'a parent \<Rightarrow> (error + 'a parent) option" where
  "union_loop z [] parent = Some (Inr parent)"
| "union_loop z (x # xs) parent =
     (case ancestor parent x of
        None \<Rightarrow> None
      | Some (Inl e) \<Rightarrow> Some (Inl e)
      | Some (Inr pr) \<Rightarrow>
          union_loop z xs (if z \<noteq> snd pr then (fst pr)(snd pr \<mapsto> z) else fst pr))"

text \<open>The value \<open>t\<close> of both loops: the filter object over the intermediates of a
  reaction.\<close>

definition rxn_intermediates :: "'a list \<Rightarrow> 'a reaction \<Rightarrow> 'a seq_value" where
  "rxn_intermediates intermediates rxn =
     FilterObj (filter (\<lambda>x. x \<in> set intermediates) (fst rxn @ snd rxn))"

text \<open>The first loop over the CRN.  \<^verbatim>\<open>len(t)\<close> raises \<^verbatim>\<open>TypeError\<close> on a filter object;
  on a list \<^verbatim>\<open>len(t) > 1\<close> guards \<^verbatim>\<open>t[0]\<close> and \<^verbatim>\<open>t[1:]\<close>.\<close>

fun find_modules_unite :: "'a list \<Rightarrow> 'a crn \<Rightarrow> 'a parent \<Rightarrow> (error + 'a parent) option" where
  "find_modules_unite intermediates [] parent = Some (Inr parent)"
| "find_modules_unite intermediates (rxn # crn) parent =
     (case rxn_intermediates intermediates rxn of
        FilterObj xs \<Rightarrow> Some (Inl TypeError)
      | ListObj t \<Rightarrow>
          if length t > 1 then
            (case ancestor parent (hd t) of
               None \<Rightarrow> None
             | Some (Inl e) \<Rightarrow> Some (Inl e)
             | Some (Inr pr) \<Rightarrow>
                 (case union_loop (snd pr) (tl t) (fst pr) of
                    None \<Rightarrow> None
                  | Some (Inl e) \<Rightarrow> Some (Inl e)
                  | Some (Inr parent') \<Rightarrow> find_modules_unite intermediates crn parent'))
          else find_modules_unite intermediates crn parent)"

text \<open>The second loop: the loop state is \<open>(parent, division, i)\<close>.\<close>

fun find_modules_assign ::
  "'a list \<Rightarrow> 'a crn \<Rightarrow> 'a parent \<Rightarrow> 'a division \<Rightarrow> nat \<Rightarrow> (error + 'a division) option" where
  "find_modules_assign intermediates [] parent division i = Some (Inr division)"
| "find_modules_assign intermediates (rxn # crn) parent division i =
     (case rxn_intermediates intermediates rxn of
        FilterObj xs \<Rightarrow> Some (Inl TypeError)
      | ListObj t \<Rightarrow>
          if length t > 0 then
            (case ancestor parent (hd t) of
               None \<Rightarrow> None
             | Some (Inl e) \<Rightarrow> Some (Inl e)
             | Some (Inr pr) \<Rightarrow>
                 (case map_of division (Inl (snd pr)) of
                    None \<Rightarrow> Some (Inl KeyError)
                  | Some l \<Rightarrow>
                      find_modules_assign intermediates crn (fst pr)
                        (AList.update (Inl (snd pr)) (l @ [rxn]) division) i))
          else find_modules_assign intermediates crn parent
                 (AList.update (Inr i) [rxn] division) (i + 1))"

text \<open>\<^verbatim>\<open>find_modules(crn, intermediates)\<close>; the value returned is the filter object over
  \<^verbatim>\<open>division.values()\<close>.\<close>

definition find_modules ::
  "'a crn \<Rightarrow> 'a list \<Rightarrow> (error + 'a reaction list seq_value) option" where
  "find_modules crn intermediates =
     (let parent = fold (\<lambda>i m. m(i \<mapsto> i)) intermediates Map.empty;
          division = fold (\<lambda>i d. AList.update (Inl i) [] d) intermediates []
      in case find_modules_unite intermediates crn parent of
           None \<Rightarrow> None
         | Some (Inl e) \<Rightarrow> Some (Inl e)
         | Some (Inr parent') \<Rightarrow>
             (case find_modules_assign intermediates crn parent' division 0 of
                None \<Rightarrow> None
              | Some (Inl e) \<Rightarrow> Some (Inl e)
              | Some (Inr division') \<Rightarrow>
                  Some (Inr (FilterObj (filter (\<lambda>x. length x > 0) (map snd division'))))))"

section \<open>Properties of the state algebra\<close>

lemma subset_add_mset_notin:
  "y \<notin># A \<Longrightarrow> A \<subseteq># add_mset y B \<Longrightarrow> A \<subseteq># B"
  by (metis Diff_eq_empty_iff_mset minus_add_mset_if_not_in_lhs)

lemma subset_add_mset_mono:
  "A \<subseteq># B \<Longrightarrow> A \<subseteq># add_mset y B"
  by (metis multi_psub_of_add_self subset_mset.le_less subset_mset.le_less_trans)

lemma contained_helper_sorted:
  "sorted a \<Longrightarrow> sorted b \<Longrightarrow> contained_helper a b \<longleftrightarrow> mset a \<subseteq># mset b"
proof (induction a b rule: contained_helper.induct)
  case (1 b)
  show ?case by simp
next
  case (2 x a)
  show ?case by simp
next
  case (3 x a y b)
  show ?case
  proof (cases "length (y # b) < length (x # a)")
    case True
    have "\<not> mset (x # a) \<subseteq># mset (y # b)"
    proof
      assume "mset (x # a) \<subseteq># mset (y # b)"
      then have "size (mset (x # a)) \<le> size (mset (y # b))"
        by (rule size_mset_mono)
      with True show False by simp
    qed
    with True show ?thesis by simp
  next
    case len: False
    show ?thesis
    proof (cases "x = y")
      case True
      with len 3 show ?thesis by simp
    next
      case neq: False
      have sa: "sorted (x # a)" and sb: "sorted b"
        using 3 by simp_all
      have ih: "contained_helper (x # a) b \<longleftrightarrow> mset (x # a) \<subseteq># mset b"
        using 3(2) [OF len neq sa sb] .
      have "mset (x # a) \<subseteq># mset (y # b) \<longleftrightarrow> mset (x # a) \<subseteq># mset b"
      proof
        assume sub: "mset (x # a) \<subseteq># mset (y # b)"
        have "y \<notin> set (x # a)"
        proof
          assume "y \<in> set (x # a)"
          with neq have "y \<in> set a" by simp
          with sa have "x \<le> y" by simp
          from sub have "x \<in># mset (y # b)"
            by (metis list.set_intros(1) mset_subset_eqD set_mset_mset)
          with neq have "x \<in> set b" by simp
          with 3(4) have "y \<le> x" by simp
          with \<open>x \<le> y\<close> neq show False by simp
        qed
        then have "y \<notin># mset (x # a)" by simp
        with sub show "mset (x # a) \<subseteq># mset b"
          using subset_add_mset_notin [of y "mset (x # a)" "mset b"] by simp
      next
        assume "mset (x # a) \<subseteq># mset b"
        then show "mset (x # a) \<subseteq># mset (y # b)"
          using subset_add_mset_mono [of "mset (x # a)" "mset b" y] by simp
      qed
      with len neq ih show ?thesis by simp
    qed
  qed
qed

text \<open>
  Claim C6.  For all lists \<open>a\<close> and \<open>b\<close> of species, \<^verbatim>\<open>contained(a, b)\<close> is true if
  and only if every species occurs in \<open>a\<close> at most as often as in \<open>b\<close>.
\<close>

theorem contained_iff_counts:
  "contained a b \<longleftrightarrow> (\<forall>s. count (mset a) s \<le> count (mset b) s)"
proof -
  have "contained a b \<longleftrightarrow> mset (sort a) \<subseteq># mset (sort b)"
    unfolding contained_def by (rule contained_helper_sorted) simp_all
  then show ?thesis
    by (simp add: subseteq_mset_def)
qed

section \<open>Replay consistency\<close>

lemma diff_remove1_in: "r \<in># C \<Longrightarrow> A - (C - {#r#}) = add_mset r A - C"
proof (rule multiset_eqI)
  fix a assume "r \<in># C"
  then have "1 \<le> count C r" by (simp add: Suc_le_eq)
  then show "count (A - (C - {#r#})) a = count (add_mset r A - C) a"
    by (cases "a = r") auto
qed

lemma diff_add_notin: "r \<notin># C \<Longrightarrow> add_mset r (A - C) = add_mset r A - C"
  by (simp add: diff_union_single_conv not_in_iff multiset_eq_iff)

lemma diff_split: "J \<subseteq># I \<Longrightarrow> J = K + D \<Longrightarrow> I - K = D + (I - J)"
  for I J K D :: "'a multiset"
  by simp

lemma sub_sup_plus: "R \<subseteq># C + (R - C) + X" for R C X :: "'a multiset"
  by (auto simp: subseteq_mset_def)

lemma sup_plus_diff: "C + (R - C) + X - R = (C - R) + X" for R C X :: "'a multiset"
  by (rule multiset_eqI) simp

lemma remove_each_ok:
  "mset xs \<subseteq># mset s \<Longrightarrow> \<exists>s'. remove_each xs s = Inr s' \<and> mset s' = mset s - mset xs"
proof (induction xs arbitrary: s)
  case Nil
  show ?case by simp
next
  case (Cons x xs)
  from Cons.prems have x: "x \<in> set s"
    by (metis list.set_intros(1) mset_subset_eqD set_mset_mset)
  from Cons.prems have "mset xs \<subseteq># mset (remove1 x s)"
    by (simp add: insert_subset_eq_iff)
  from Cons.IH [OF this] x show ?case
    by auto
qed

lemma final_reactants_ok:
  "mset xs \<subseteq># mset c \<Longrightarrow> \<exists>c'. final_reactants xs c = Some c' \<and> mset c' = mset c - mset xs"
proof (induction xs arbitrary: c)
  case Nil
  show ?case by simp
next
  case (Cons x xs)
  from Cons.prems have x: "x \<in> set c"
    by (metis list.set_intros(1) mset_subset_eqD set_mset_mset)
  from Cons.prems have "mset xs \<subseteq># mset (remove1 x c)"
    by (simp add: insert_subset_eq_iff)
  from Cons.IH [OF this] x show ?case
    by auto
qed

lemma mis_reactants_mset:
  "mset (fst (mis_reactants rs ic)) = mset (fst ic) + (mset rs - mset (snd ic)) \<and>
   mset (snd (mis_reactants rs ic)) = mset (snd ic) - mset rs"
proof (induction rs arbitrary: ic)
  case Nil
  show ?case by simp
next
  case (Cons r rs)
  show ?case
  proof (cases "r \<in> set (snd ic)")
    case True
    then have r: "r \<in># mset (snd ic)" by simp
    have "mis_reactants (r # rs) ic = mis_reactants rs (fst ic, remove1 r (snd ic))"
      using True by simp
    moreover have "mset rs - (mset (snd ic) - {#r#}) = mset (r # rs) - mset (snd ic)"
      using diff_remove1_in [OF r, of "mset rs"] by simp
    moreover have "mset (snd ic) - {#r#} - mset rs = mset (snd ic) - mset (r # rs)"
      by simp
    ultimately show ?thesis
      using Cons.IH [of "(fst ic, remove1 r (snd ic))"] by simp
  next
    case False
    then have r: "r \<notin># mset (snd ic)" by simp
    have "mis_reactants (r # rs) ic = mis_reactants rs (fst ic @ [r], snd ic)"
      using False by simp
    moreover have "add_mset r (mset rs - mset (snd ic)) = mset (r # rs) - mset (snd ic)"
      using diff_add_notin [OF r, of "mset rs"] by simp
    moreover have "mset (snd ic) - mset rs = mset (snd ic) - mset (r # rs)"
      using r by simp
    ultimately show ?thesis
      using Cons.IH [of "(fst ic @ [r], snd ic)"] by simp
  qed
qed

lemma mis_loop_mono: "mset (fst ic) \<subseteq># mset (fst (mis_loop p ic))"
proof (induction p arbitrary: ic)
  case Nil
  show ?case by simp
next
  case (Cons rxn p)
  let ?ic' = "mis_reactants (fst rxn) ic"
  have "mset (fst ic) \<subseteq># mset (fst ?ic')"
    using mis_reactants_mset [of "fst rxn" ic] by simp
  also have "\<dots> \<subseteq># mset (fst (mis_loop p (fst ?ic', snd ?ic' @ snd rxn)))"
    using Cons.IH [of "(fst ?ic', snd ?ic' @ snd rxn)"] by simp
  finally show ?case by (simp add: Let_def)
qed

lemma final_loop_mis:
  "mset c = mset (snd ic) + (mset (fst (mis_loop p ic)) - mset (fst ic)) \<Longrightarrow>
   \<exists>s. final_loop p c = Some s \<and> mset s = mset (snd (mis_loop p ic)) \<and> sorted s"
proof (induction p arbitrary: c ic)
  case Nil
  then show ?case by simp
next
  case (Cons rxn p)
  define R where "R = mset (fst rxn)"
  define ic1 where "ic1 = mis_reactants (fst rxn) ic"
  define ic2 where "ic2 = (fst ic1, snd ic1 @ snd rxn)"
  define I where "I = mset (fst (mis_loop p ic2))"
  have step: "mis_loop (rxn # p) ic = mis_loop p ic2"
    by (simp add: Let_def ic2_def ic1_def)
  have i1: "mset (fst ic1) = mset (fst ic) + (R - mset (snd ic))"
    and c1: "mset (snd ic1) = mset (snd ic) - R"
    using mis_reactants_mset [of "fst rxn" ic] by (simp_all add: ic1_def R_def)
  have mono: "mset (fst ic1) \<subseteq># I"
    using mis_loop_mono [of ic2 p] by (simp add: I_def ic2_def)
  have split: "I - mset (fst ic) = (R - mset (snd ic)) + (I - mset (fst ic1))"
    using diff_split [OF mono i1] .
  have "mset c = mset (snd ic) + (I - mset (fst ic))"
    using Cons.prems unfolding step I_def .
  then have c: "mset c = mset (snd ic) + (R - mset (snd ic)) + (I - mset (fst ic1))"
    unfolding split by (simp only: add.assoc)
  have sub: "mset (fst rxn) \<subseteq># mset c"
    unfolding c R_def [symmetric] by (rule sub_sup_plus)
  from final_reactants_ok [OF sub] obtain c' where
    c': "final_reactants (fst rxn) c = Some c'" "mset c' = mset c - R"
    unfolding R_def by blast
  have "mset c' = (mset (snd ic) - R) + (I - mset (fst ic1))"
    unfolding c'(2) c by (rule sup_plus_diff)
  then have "mset (c' @ snd rxn) = mset (snd ic2) + (mset (fst (mis_loop p ic2)) - mset (fst ic2))"
    unfolding I_def ic2_def using c1 by simp
  from Cons.IH [OF this] obtain s where
    "final_loop p (c' @ snd rxn) = Some s" "mset s = mset (snd (mis_loop p ic2))" "sorted s"
    by blast
  then show ?case
    unfolding step using c'(1) by simp
qed


lemma replay_mis:
  "mset S = mset (snd ic) + (mset (fst (mis_loop p ic)) - mset (fst ic)) \<Longrightarrow> sorted S \<Longrightarrow>
   \<exists>s. replay p S = Inr s \<and> mset s = mset (snd (mis_loop p ic)) \<and> sorted s"
proof (induction p arbitrary: S ic)
  case Nil
  then show ?case by simp
next
  case (Cons rxn p)
  define R where "R = mset (fst rxn)"
  define ic1 where "ic1 = mis_reactants (fst rxn) ic"
  define ic2 where "ic2 = (fst ic1, snd ic1 @ snd rxn)"
  define I where "I = mset (fst (mis_loop p ic2))"
  have step: "mis_loop (rxn # p) ic = mis_loop p ic2"
    by (simp add: Let_def ic2_def ic1_def)
  have i1: "mset (fst ic1) = mset (fst ic) + (R - mset (snd ic))"
    and c1: "mset (snd ic1) = mset (snd ic) - R"
    using mis_reactants_mset [of "fst rxn" ic] by (simp_all add: ic1_def R_def)
  have mono: "mset (fst ic1) \<subseteq># I"
    using mis_loop_mono [of ic2 p] by (simp add: I_def ic2_def)
  have split: "I - mset (fst ic) = (R - mset (snd ic)) + (I - mset (fst ic1))"
    using diff_split [OF mono i1] .
  have "mset S = mset (snd ic) + (I - mset (fst ic))"
    using Cons.prems(1) unfolding step I_def .
  then have c: "mset S = mset (snd ic) + (R - mset (snd ic)) + (I - mset (fst ic1))"
    unfolding split by (simp only: add.assoc)
  have sub: "mset (fst rxn) \<subseteq># mset S"
    unfolding c R_def [symmetric] by (rule sub_sup_plus)
  from remove_each_ok [OF sub] obtain c' where
    c': "remove_each (fst rxn) S = Inr c'" "mset c' = mset S - R"
    unfolding R_def by blast
  have ns: "next_state S rxn = Inr (sort (c' @ snd rxn))"
    using c'(1) by (simp add: next_state_def)
  have "mset c' = (mset (snd ic) - R) + (I - mset (fst ic1))"
    unfolding c'(2) c by (rule sup_plus_diff)
  then have "mset (sort (c' @ snd rxn)) =
      mset (snd ic2) + (mset (fst (mis_loop p ic2)) - mset (fst ic2))"
    unfolding I_def ic2_def using c1 by simp
  from Cons.IH [OF this] obtain s where
    "replay p (sort (c' @ snd rxn)) = Inr s" "mset s = mset (snd (mis_loop p ic2))" "sorted s"
    by auto
  then show ?case
    unfolding step using ns by simp
qed

text \<open>
  Claim C1.  For every pathway \<open>p\<close>, with \<open>initial = minimal_initial_state p\<close>,
  replaying \<open>p\<close> from \<open>initial\<close> by repeated \<^verbatim>\<open>next_state\<close> raises no exception (no
  reactant is ever missing) and ends in exactly the state that
  \<^verbatim>\<open>final_state(p, initial)\<close> returns, which therefore is not \<^verbatim>\<open>None\<close>.
\<close>

theorem replay_consistency:
  "\<exists>s. replay p (minimal_initial_state p) = Inr s \<and>
       final_state p (minimal_initial_state p) = Some s"
proof -
  let ?S = "minimal_initial_state p"
  have m: "mset ?S = mset (snd ([], [])) + (mset (fst (mis_loop p ([], []))) - mset (fst ([], [])))"
    by (simp add: minimal_initial_state_def)
  have "sorted ?S"
    by (simp add: minimal_initial_state_def)
  from replay_mis [OF m this] obtain s where
    s: "replay p ?S = Inr s" "mset s = mset (snd (mis_loop p ([], [])))" "sorted s"
    by blast
  from final_loop_mis [OF m] obtain t where
    t: "final_loop p ?S = Some t" "mset t = mset (snd (mis_loop p ([], [])))" "sorted t"
    by blast
  have "s = t"
    using s(2,3) t(2,3) by (metis properties_for_sort)
  with s(1) t(1) show ?thesis
    by (simp add: final_state_def)
qed

section \<open>Effects on the arguments\<close>

text \<open>
  Claim C9 does not hold of \<^verbatim>\<open>remove_duplicates\<close>: \<^verbatim>\<open>l.sort()\<close> sorts the caller's list in
  place.  After \<^verbatim>\<open>remove_duplicates(l)\<close> with \<^verbatim>\<open>l = ['b', 'a']\<close> the caller's list is
  \<^verbatim>\<open>['a', 'b']\<close>.
\<close>

theorem remove_duplicates_sorts_argument:
  "remove_duplicates_io [''b'', ''a''] = ([''a'', ''b''], [''a'', ''b'']) \<and>
   snd (remove_duplicates_io [''b'', ''a'']) \<noteq> [''b'', ''a'']"
  by (simp add: remove_duplicates_io_def)

section \<open>Filter objects\<close>


lemma py_len_intermediate: "py_len (intermediate s fs) = Inl TypeError"
  by (simp add: py_len_def intermediate_def)

lemma setminus_formal: "setminus (formal s fs) b = Inl TypeError"
  by (simp add: setminus_def py_copy_def formal_def)



lemma tidy_loop_FilterObj: "tidy_loop fs crn (FilterObj xs # queue) mem = Some (Inl TypeError)"
  by (simp add: tidy_loop.simps)

lemma next_state_first:
  "\<exists>S'. next_state (minimal_initial_state (r # p)) r = Inr S'"
proof -
  let ?S = "minimal_initial_state (r # p)"
  have m: "mset ?S =
      mset (snd ([], [])) + (mset (fst (mis_loop (r # p) ([], []))) - mset (fst ([], [])))"
    by (simp add: minimal_initial_state_def)
  have "sorted ?S"
    by (simp add: minimal_initial_state_def)
  from replay_mis [OF m this] obtain s where "replay (r # p) ?S = Inr s"
    by blast
  then show ?thesis
    by (cases "next_state ?S r") simp_all
qed

lemma linearcheck_TypeError: "linearcheck path S nonw = Inl TypeError"
  by (cases path) (simp_all add: py_len_def)

lemma formal_closure_Nil: "formal_closure [] fs = Inr []"
  by (simp add: formal_closure_def minimal_initial_state_def formal_def py_items_def)

lemma regular_final_state_Nil: "regular_final_state [] fs = Inr []"
  by (simp add: regular_final_state_def minimal_initial_state_def)

lemma branching_factors_TypeError: "branching_factors (rxn # crn) fs = Inl TypeError"
  by (simp add: branching_factors_def py_max_def py_len_intermediate)

section \<open>Tidiness\<close>

text \<open>
  Claim C2 does not hold of the code.  \<^verbatim>\<open>tidy(S, crn, fs)\<close> puts the filter object
  \<^verbatim>\<open>intermediate(S, fs)\<close> into the queue and takes \<^verbatim>\<open>len\<close> of the first dequeued value:
  for every state, CRN and formal-species set the call raises \<^verbatim>\<open>TypeError\<close>, whether
  or not the empty state is reachable, so it never returns true.
\<close>

theorem tidy_raises_TypeError:
  "tidy S crn fs = Some (Inl TypeError)"
  by (simp add: tidy_def intermediate_def tidy_loop_FilterObj)

text \<open>
  Claim C10 does not hold of the code.  For the state \<^verbatim>\<open>['A', 'B']\<close> with both species
  formal the projection is a filter object that would yield nothing, but \<^verbatim>\<open>len\<close> of it
  raises \<^verbatim>\<open>TypeError\<close> before the test \<^verbatim>\<open>len(S) == 0\<close> can return true, for every CRN.
\<close>

theorem tidy_formal_state_raises:
  "tidy [''A'', ''B''] crn {''A'', ''B''} = Some (Inl TypeError)"
  by (simp add: tidy_def intermediate_def tidy_loop_FilterObj)

section \<open>Decomposition\<close>


section \<open>Formal closure\<close>

text \<open>
  Claim C7 does not hold of the code.  For a pathway with at least one reaction the
  first round of the loop of \<^verbatim>\<open>formal_closure\<close> replays the first reaction, which
  succeeds from the minimal initial state, and then calls \<^verbatim>\<open>setminus\<close> on two filter
  objects, whose copy \<^verbatim>\<open>a[:]\<close> raises \<^verbatim>\<open>TypeError\<close>; no list is returned.  (Only for the
  empty pathway a list is returned, the empty one.)
\<close>

theorem formal_closure_raises_TypeError:
  "formal_closure (r # p) fs = Inl TypeError"
proof -
  obtain S' where "next_state (minimal_initial_state (r # p)) r = Inr S'"
    using next_state_first by blast
  then show ?thesis
    by (simp add: formal_closure_def Let_def setminus_formal)
qed

section \<open>Module partition\<close>

lemma set_update_subset: "set (AList.update k v d) \<subseteq> insert (k, v) (set d)"
  by (induction d) auto

lemma fold_division_empty:
  "\<forall>e \<in> set d. snd e = [] \<Longrightarrow>
   \<forall>e \<in> set (fold (\<lambda>i d. AList.update (Inl i) [] d) intermediates d). snd e = []"
proof (induction intermediates arbitrary: d)
  case Nil
  then show ?case by simp
next
  case (Cons i intermediates)
  have "\<forall>e \<in> set (AList.update (Inl i) [] d). snd e = []"
    using Cons.prems set_update_subset [of "Inl i" "[]" d] by auto
  from Cons.IH [OF this] show ?case by simp
qed

lemma find_modules_Nil: "find_modules [] intermediates = Some (Inr (FilterObj []))"
proof -
  have "\<forall>e \<in> set (fold (\<lambda>i d. AList.update (Inl i) [] d) intermediates []). snd e = []"
    by (rule fold_division_empty) simp
  then have "filter (\<lambda>x. length x > 0)
      (map snd (fold (\<lambda>i d. AList.update (Inl i) [] d) intermediates [])) = []"
    by (simp add: filter_empty_conv)
  then show ?thesis
    by (simp add: find_modules_def Let_def)
qed

text \<open>
  Claim C4 does not hold of the code.  For a CRN with at least one reaction the first
  loop of \<^verbatim>\<open>find_modules\<close> takes \<^verbatim>\<open>len\<close> of the filter object \<open>t\<close> of the first
  reaction and raises \<^verbatim>\<open>TypeError\<close>, for every list of intermediates; no module is
  returned.  (Only for the empty CRN a value is returned, a filter object that yields
  no module.)
\<close>

theorem find_modules_raises_TypeError:
  "find_modules (rxn # crn) intermediates = Some (Inl TypeError)"
  by (simp add: find_modules_def Let_def rxn_intermediates_def)

section \<open>The empty module\<close>

text \<open>
  Claim C8 does not hold of the code: \<^verbatim>\<open>enumerate_basis\<close> on a CRN without reactions
  raises \<^verbatim>\<open>ValueError\<close> in its first statement, \<^verbatim>\<open>max\<close> over an empty sequence, for every
  formal-species set, \<^verbatim>\<open>nonw\<close> and interpretation.
\<close>

theorem enumerate_basis_empty_crn:
  "enumerate_basis [] fs nonw interp = Some (Inl ValueError)"
  by (simp add: enumerate_basis_def branching_factors_def py_max_def)

section \<open>The bound-widening loop\<close>

text \<open>
  Claim C3 does not hold of the code.  For a CRN with at least one reaction the second
  statement of \<^verbatim>\<open>enumerate_basis\<close>, the branching factor \<open>bf\<close>, takes \<^verbatim>\<open>len\<close> of the
  filter object \<^verbatim>\<open>intermediate(r, fs)\<close> of the first reaction and raises \<^verbatim>\<open>TypeError\<close>
  before the widening loop is entered: no pass is run, no pair of bounds is produced
  and no fixpoint is reached, for every formal-species set, \<^verbatim>\<open>nonw\<close> and
  interpretation.
\<close>

theorem enumerate_basis_raises_TypeError:
  "enumerate_basis (rxn # crn) fs nonw interp = Some (Inl TypeError)"
  by (simp add: enumerate_basis_def branching_factors_TypeError)
end
